theory Spec2Isabelle
  imports Complex_Main "HOL-Library.Signed_Division"
begin

section \<open>Strings\<close>

text \<open>
  Go strings are byte sequences; they are modelled as \<open>string\<close> (a \<open>char list\<close>, one
  \<open>char\<close> per byte). \<open>strings.ToLower\<close> and \<open>strings.ToUpper\<close> are modelled on
  ASCII: the bytes \<open>A\<close>..\<open>Z\<close> (65..90) and \<open>a\<close>..\<open>z\<close> (97..122) are mapped onto each
  other and every other byte is left alone. Token symbols, network names and hex
  addresses, the only strings the handlers and the checksum code change case of,
  are ASCII.
\<close>

definition toLowerByte :: "char \<Rightarrow> char" where
  "toLowerByte c =
     (let n = (of_char c :: nat) in if 65 \<le> n \<and> n \<le> 90 then char_of (n + 32) else c)"

definition toUpperByte :: "char \<Rightarrow> char" where
  "toUpperByte c =
     (let n = (of_char c :: nat) in if 97 \<le> n \<and> n \<le> 122 then char_of (n - 32) else c)"

definition ToLower :: "string \<Rightarrow> string" where
  "ToLower s = map toLowerByte s"

definition ToUpper :: "string \<Rightarrow> string" where
  "ToUpper s = map toUpperByte s"

section \<open>EIP-55 checksums (pkg/cli/commands/request.go)\<close>

text \<open>
  \<open>isDecimalDigit\<close> is the test \<open>c >= '0' && c <= '9'\<close> of \<open>toEIP55Checksum\<close>;
  \<open>isHexChar\<close> is the character test of \<open>validateAddress\<close>.
\<close>

definition isDecimalDigit :: "char \<Rightarrow> bool" where
  "isDecimalDigit c = (let n = (of_char c :: nat) in 48 \<le> n \<and> n \<le> 57)"

definition isHexChar :: "char \<Rightarrow> bool" where
  "isHexChar c =
     (let n = (of_char c :: nat)
      in (48 \<le> n \<and> n \<le> 57) \<or> (97 \<le> n \<and> n \<le> 102) \<or> (65 \<le> n \<and> n \<le> 70))"

text \<open>
  \<open>hex.EncodeToString\<close>: two lower-case hex digits per byte, high nibble first.
\<close>

definition hexDigit :: "nat \<Rightarrow> char" where
  "hexDigit d = (if d < 10 then char_of (48 + d) else char_of (87 + d))"

definition EncodeToString :: "char list \<Rightarrow> string" where
  "EncodeToString bs =
     concat (map (\<lambda>b. [hexDigit ((of_char b :: nat) div 16), hexDigit ((of_char b :: nat) mod 16)]) bs)"

text \<open>
  The loop \<open>for i, c := range addr\<close> of \<open>toEIP55Checksum\<close>, with \<open>i\<close> the byte index and
  \<open>result\<close> the string built so far. A decimal digit is copied. For any other
  character the code reads \<open>hashHex[i]\<close>: beyond the end of \<open>hashHex\<close> Go panics (the
  result \<open>None\<close>); a hash character \<open>>= '8'\<close> (byte 56) upper-cases the address
  character.
\<close>

fun checksumLoop :: "string \<Rightarrow> nat \<Rightarrow> string \<Rightarrow> string \<Rightarrow> string option" where
  "checksumLoop hashHex i [] result = Some result"
| "checksumLoop hashHex i (c # cs) result =
     (if isDecimalDigit c then checksumLoop hashHex (i + 1) cs (result @ [c])
      else if length hashHex \<le> i then None
      else if (56::nat) \<le> of_char (hashHex ! i)
        then checksumLoop hashHex (i + 1) cs (result @ ToUpper [c])
        else checksumLoop hashHex (i + 1) cs (result @ [c]))"

text \<open>
  \<open>toEIP55Checksum\<close>. The Keccak-256 digest comes from the library
  \<open>golang.org/x/crypto/sha3\<close> and is a parameter: \<open>Keccak256 s\<close> is the list of digest
  bytes of \<open>s\<close>. The slice \<open>address[2:]\<close> panics on a string shorter than two bytes.
\<close>

definition toEIP55Checksum :: "(string \<Rightarrow> char list) \<Rightarrow> string \<Rightarrow> string option" where
  "toEIP55Checksum Keccak256 address =
     (if length address < 2 then None
      else let addr = ToLower (drop 2 address);
               hashHex = EncodeToString (Keccak256 addr)
           in checksumLoop hashHex 0 addr ''0x'')"

definition isValidEIP55Checksum :: "(string \<Rightarrow> char list) \<Rightarrow> string \<Rightarrow> bool option" where
  "isValidEIP55Checksum Keccak256 address =
     map_option (\<lambda>r. address = r) (toEIP55Checksum Keccak256 address)"

text \<open>
  The address form of the claim: \<open>0x\<close> followed by exactly 40 hex characters.
\<close>

definition isEthereumAddressForm :: "string \<Rightarrow> bool" where
  "isEthereumAddressForm a =
     (take 2 a = ''0x'' \<and> length (drop 2 a) = 40 \<and> list_all isHexChar (drop 2 a))"

text \<open>
  A digest function for evaluating the checksum on a concrete address: 32 bytes, each
  \<open>0x8f\<close>. Any function returning 32 bytes would do.
\<close>

definition digest0 :: "string \<Rightarrow> char list" where
  "digest0 s = replicate 32 (char_of (143::nat))"

section \<open>The admission handlers (internal/api/handlers.go)\<close>

subsection \<open>Collaborator calls\<close>

text \<open>
  The handlers keep no state of their own: every effect is a call to the Redis client
  or to the chain client. The model threads the list of calls made so far (oldest
  first) through the handler; a handler returns its response together with the
  extended list. A collaborator's answer is a function of the calls made before it,
  so every deterministic store and chain is an instance, failing ones included.
  Calls to the chain carry the network key under which the chain was looked up.
  Logging is not modelled.
\<close>

type_synonym error = string
type_synonym Time = int
type_synonym Duration = int

datatype 'f call =
    CheckIPDailyLimit_call string
  | GetIPDailyQuota_call string
  | CheckTokenHourlyThrottle_call string string string
  | GetChallenge_call string
  | DeleteChallenge_call string
  | TrackGlobalDistribution_call string 'f 'f 'f
  | GetBalance_call string string string
  | TransferTokens_call string string string int
  | IncrementIPDailyLimit_call string int
  | SetTokenHourlyThrottle_call string string string

text \<open>
  What the handlers take from the language and from packages that are not part of the
  sources at hand. \<open>'f\<close> stands for \<open>float64\<close>: subtraction, multiplication, division,
  \<open><\<close>, the conversion \<open>float64(n)\<close> of an integer and \<open>strconv.ParseFloat\<close> (whose error
  the handlers drop) are parameters, so a theorem about every \<open>'f Runtime\<close> holds for
  IEEE arithmetic with its rounding as well as for exact arithmetic.
  \<open>AmountToWei\<close> and \<open>WeiToAmount\<close> are the functions of package \<open>chains\<close>; \<open>Now\<close> is the
  clock reading of \<open>time.Until\<close>. Times and durations are integers (nanoseconds).
\<close>

record 'f Runtime =
  fsub :: "'f \<Rightarrow> 'f \<Rightarrow> 'f"
  fmul :: "'f \<Rightarrow> 'f \<Rightarrow> 'f"
  fdiv :: "'f \<Rightarrow> 'f \<Rightarrow> 'f"
  flt :: "'f \<Rightarrow> 'f \<Rightarrow> bool"
  float64 :: "int \<Rightarrow> 'f"
  ParseFloat :: "string \<Rightarrow> 'f"
  AmountToWei :: "'f \<Rightarrow> int"
  WeiToAmount :: "int \<Rightarrow> 'f"
  Now :: Time

text \<open>
  \<open>config.Config\<close> (internal/config/config.go), with the two accessors the handlers read.
\<close>

record Config =
  MaxRequestsPerDayIP :: int
  PoWDifficulty :: int

text \<open>
  The methods of \<open>cache.RedisClient\<close> the handlers call. The package is not part of
  the sources, so each method is a parameter: given the calls made so far and its
  arguments it returns what the Go method returns, the \<open>error\<close> last (\<open>None\<close> is
  \<open>nil\<close>). A \<open>*time.Time\<close> is a \<open>Time option\<close>.
\<close>

record 'f RedisClient =
  CheckIPDailyLimit :: "'f call list \<Rightarrow> string \<Rightarrow> bool \<times> int \<times> Time option \<times> error option"
  GetIPDailyQuota :: "'f call list \<Rightarrow> string \<Rightarrow> int \<times> int \<times> Time option \<times> error option"
  CheckTokenHourlyThrottle ::
    "'f call list \<Rightarrow> string \<Rightarrow> string \<Rightarrow> string \<Rightarrow> bool \<times> Time option \<times> error option"
  GetChallenge :: "'f call list \<Rightarrow> string \<Rightarrow> string \<times> error option"
  DeleteChallenge :: "'f call list \<Rightarrow> string \<Rightarrow> error option"
  TrackGlobalDistribution ::
    "'f call list \<Rightarrow> string \<Rightarrow> 'f \<Rightarrow> 'f \<Rightarrow> 'f \<Rightarrow> bool \<times> error option"
  IncrementIPDailyLimit :: "'f call list \<Rightarrow> string \<Rightarrow> int \<Rightarrow> error option"
  SetTokenHourlyThrottle :: "'f call list \<Rightarrow> string \<Rightarrow> string \<Rightarrow> string \<Rightarrow> error option"

text \<open>
  The methods of the interface \<open>chains.Chain\<close> and of \<open>ChainProvider\<close> that the handlers
  call. A balance (\<open>*big.Int\<close>, in wei) is an \<open>int\<close>.
\<close>

record 'f Chain =
  ValidateAddress :: "string \<Rightarrow> error option"
  ValidateToken :: "string \<Rightarrow> error option"
  GetSupportedTokens :: "string list"
  GetBalance :: "'f call list \<Rightarrow> string \<Rightarrow> string \<Rightarrow> int \<times> error option"
  TransferTokens :: "'f call list \<Rightarrow> string \<Rightarrow> string \<Rightarrow> int \<Rightarrow> string \<times> error option"
  GetExplorerURL :: "string \<Rightarrow> string"

record 'f ChainProvider =
  GetDripAmount :: "string \<Rightarrow> string"
  GetMaxTokensPerHour :: "string \<Rightarrow> 'f"
  GetMaxTokensPerDay :: "string \<Rightarrow> 'f"
  GetMinBalanceProtectPct :: int
  GetFaucetAddress :: string

text \<open>
  The struct \<open>Handler\<close>. \<open>VerifyPoW\<close> is the method of its \<open>powGenerator\<close> (package \<open>pow\<close>,
  a pure function of the stored challenge, the nonce and the difficulty).
\<close>

record 'f Handler =
  config :: Config
  redis :: "'f RedisClient"
  chains :: "string \<rightharpoonup> 'f Chain"
  providers :: "string \<rightharpoonup> 'f ChainProvider"
  VerifyPoW :: "string \<Rightarrow> int \<Rightarrow> int \<Rightarrow> bool"
  defaultNetwork :: string

subsection \<open>Requests and responses\<close>

text \<open>
  The structs of package \<open>models\<close> as the handlers and the CLI use them. Fields that
  several structs share are prefixed in the later ones. An error body is the message
  the handler puts into \<open>models.ErrorResponse\<close>, with the values it formats into it.
\<close>

record FaucetRequest =
  Address :: string
  Token :: string
  Network :: string
  ChallengeID :: string
  Nonce :: int

record TransactionInfo =
  TxToken :: string
  TxAmount :: string
  TxHash :: string
  TxExplorerURL :: string

datatype Message = TokensSent | BothTokensSent | SentButFailed nat string

record FaucetResponse =
  Success :: bool
  RespTxHash :: string
  RespAmount :: string
  RespToken :: string
  RespExplorerURL :: string
  RespMessage :: Message
  Transactions :: "TransactionInfo list"

record 'f StatusResponse =
  StatusAddress :: string
  CanRequest :: bool
  NextRequestTime :: "Time option"
  RemainingHours :: "'f option"

datatype TimeStr = HoursMinutes int int | MinutesOnly int

datatype 'f ErrorBody =
    InvalidRequestBody
  | UnsupportedNetwork string
  | ProviderNotFound string
  | InvalidAddress error
  | InvalidToken error
  | FailedToCheckRateLimit
  | DailyCooldown TimeStr
  | DailyLimitExceeded int int
  | HourlyLimit string string int
  | InvalidOrExpiredChallenge
  | InvalidProofOfWork
  | FailedToProcessRequest
  | FaucetLimit
  | FailedToCheckFaucetBalance
  | LowBalance string 'f
  | FailedToSendTokens
  | FailedToSendNamed string
  | FailedToCheckStatus

text \<open>
  A response is the HTTP status with an error body, a JSON body with status 200, or
  the panic of dereferencing a nil \<open>*time.Time\<close>.
\<close>

datatype 'f Response =
    ErrorJSON nat "'f ErrorBody"
  | FaucetJSON FaucetResponse
  | StatusJSON "'f StatusResponse"
  | NilPointerPanic

text \<open>
  \<open>int(d.Hours())\<close> and \<open>int(d.Minutes())\<close> for a duration \<open>d\<close> in nanoseconds: the
  quotient truncated towards zero. \<open>time.Until(t)\<close> is \<open>t\<close> minus the clock reading.
\<close>

definition intHours :: "Duration \<Rightarrow> int" where
  "intHours d = d sdiv 3600000000000"

definition intMinutes :: "Duration \<Rightarrow> int" where
  "intMinutes d = d sdiv 60000000000"

definition Until :: "'f Runtime \<Rightarrow> Time \<Rightarrow> Duration" where
  "Until rt t = t - Now rt"

subsection \<open>getChain\<close>

definition getChain ::
  "'f Handler \<Rightarrow> string \<Rightarrow> 'f ErrorBody + ('f Chain \<times> 'f ChainProvider)" where
  "getChain h network0 =
     (let network = (if network0 = [] then defaultNetwork h else network0)
      in case chains h network of
           None \<Rightarrow> Inl (UnsupportedNetwork network)
         | Some chain \<Rightarrow>
             (case providers h network of
                None \<Rightarrow> Inl (ProviderNotFound network)
              | Some provider \<Rightarrow> Inr (chain, provider)))"

subsection \<open>The balance guard\<close>

text \<open>
  The computation both \<open>RequestTokens\<close> (lines 361-366) and \<open>handleBothTokensRequest\<close>
  (lines 585-590) write out: the transfer is refused when the balance after the
  transfer is below the configured percentage of the balance before it.
\<close>

definition balanceProtectionTriggered :: "'f Runtime \<Rightarrow> int \<Rightarrow> int \<Rightarrow> 'f \<Rightarrow> bool" where
  "balanceProtectionTriggered rt pct currentBalance amountFloat =
     (let minBalancePct = fdiv rt (float64 rt pct) (float64 rt 100);
          currentBalanceFloat = WeiToAmount rt currentBalance;
          minBalanceRequired = fmul rt currentBalanceFloat minBalancePct;
          balanceAfterTransfer = fsub rt currentBalanceFloat amountFloat
      in flt rt balanceAfterTransfer minBalanceRequired)"

subsection \<open>RequestTokens\<close>

text \<open>
  \<open>RequestTokens\<close> is one long function of early returns. The model splits it at its
  own comment blocks, last part first, each part ending in a call of the next:
  \<open>RequestTokens\<close> (parsing and validation, lines 168-202), \<open>checkDailyLimit\<close> (lines
  204-247), \<open>checkThrottle\<close> (lines 249-292), \<open>verifyChallenge\<close> (lines 294-322) and
  \<open>transferSingle\<close> (lines 324-426). The errors of \<open>DeleteChallenge\<close>,
  \<open>IncrementIPDailyLimit\<close> and \<open>SetTokenHourlyThrottle\<close> are only logged by the code, so
  the model records these calls and goes on.
\<close>

definition transferSingle ::
  "'f Runtime \<Rightarrow> 'f Handler \<Rightarrow> 'f Chain \<Rightarrow> 'f ChainProvider \<Rightarrow> FaucetRequest \<Rightarrow> string \<Rightarrow> string
     \<Rightarrow> 'f call list \<Rightarrow> 'f Response \<times> 'f call list" where
  "transferSingle rt h chain chainProvider req ip network hist =
     (let amountStr = GetDripAmount chainProvider (Token req);
          amountFloat = ParseFloat rt amountStr;
          maxHourly = GetMaxTokensPerHour chainProvider (Token req);
          maxDaily = GetMaxTokensPerDay chainProvider (Token req);
          hist1 = hist @ [TrackGlobalDistribution_call (Token req) amountFloat maxHourly maxDaily]
      in case TrackGlobalDistribution (redis h) hist (Token req) amountFloat maxHourly maxDaily of
           (canDistribute, err) \<Rightarrow>
         if err \<noteq> None then (ErrorJSON 500 FailedToProcessRequest, hist1)
         else if \<not> canDistribute then (ErrorJSON 503 FaucetLimit, hist1)
         else
           (let hist2 = hist1 @ [GetBalance_call network (GetFaucetAddress chainProvider) (Token req)]
            in case GetBalance chain hist1 (GetFaucetAddress chainProvider) (Token req) of
                 (currentBalance, err) \<Rightarrow>
               if err \<noteq> None then (ErrorJSON 500 FailedToCheckFaucetBalance, hist2)
               else
                 (let amountWei = AmountToWei rt amountFloat
                  in if balanceProtectionTriggered rt (GetMinBalanceProtectPct chainProvider)
                          currentBalance amountFloat
                     then (ErrorJSON 503 (LowBalance (Token req) (WeiToAmount rt currentBalance)), hist2)
                     else
                       (let hist3 = hist2 @ [TransferTokens_call network (Address req) (Token req) amountWei]
                        in case TransferTokens chain hist2 (Address req) (Token req) amountWei of
                             (txHash, err) \<Rightarrow>
                           if err \<noteq> None then (ErrorJSON 500 FailedToSendTokens, hist3)
                           else
                             (let hist4 = hist3 @ [IncrementIPDailyLimit_call ip 1];
                                  hist5 = hist4 @ [SetTokenHourlyThrottle_call ip network (Token req)]
                              in (FaucetJSON \<lparr>Success = True, RespTxHash = txHash,
                                     RespAmount = amountStr, RespToken = Token req,
                                     RespExplorerURL = GetExplorerURL chain txHash,
                                     RespMessage = TokensSent, Transactions = []\<rparr>,
                                  hist5))))))"

text \<open>
  The loop \<open>for _, token := range tokens\<close> of \<open>handleBothTokensRequest\<close> (lines 556-615).
  It returns the transactions appended so far, \<open>failedToken\<close> (empty when no token
  failed) and the calls made; every \<open>break\<close> is a return.
\<close>

fun bothLoop ::
  "'f Runtime \<Rightarrow> 'f Handler \<Rightarrow> 'f Chain \<Rightarrow> 'f ChainProvider \<Rightarrow> FaucetRequest \<Rightarrow> string \<Rightarrow> string list
     \<Rightarrow> 'f call list \<Rightarrow> TransactionInfo list \<Rightarrow> TransactionInfo list \<times> string \<times> 'f call list" where
  "bothLoop rt h chain chainProvider req network [] hist transactions = (transactions, [], hist)"
| "bothLoop rt h chain chainProvider req network (token # rest) hist transactions =
     (let amountStr = GetDripAmount chainProvider token;
          amountFloat = ParseFloat rt amountStr;
          maxHourly = GetMaxTokensPerHour chainProvider token;
          maxDaily = GetMaxTokensPerDay chainProvider token;
          hist1 = hist @ [TrackGlobalDistribution_call token amountFloat maxHourly maxDaily]
      in case TrackGlobalDistribution (redis h) hist token amountFloat maxHourly maxDaily of
           (canDistribute, err) \<Rightarrow>
         if err \<noteq> None then (transactions, token, hist1)
         else if \<not> canDistribute then (transactions, token, hist1)
         else
           (let hist2 = hist1 @ [GetBalance_call network (GetFaucetAddress chainProvider) token]
            in case GetBalance chain hist1 (GetFaucetAddress chainProvider) token of
                 (currentBalance, err) \<Rightarrow>
               if err \<noteq> None then (transactions, token, hist2)
               else
                 (let amountWei = AmountToWei rt amountFloat
                  in if balanceProtectionTriggered rt (GetMinBalanceProtectPct chainProvider)
                          currentBalance amountFloat
                     then (transactions, token, hist2)
                     else
                       (let hist3 = hist2 @ [TransferTokens_call network (Address req) token amountWei]
                        in case TransferTokens chain hist2 (Address req) token amountWei of
                             (txHash, err) \<Rightarrow>
                           if err \<noteq> None then (transactions, token, hist3)
                           else bothLoop rt h chain chainProvider req network rest hist3
                                  (transactions @ [\<lparr>TxToken = token, TxAmount = amountStr,
                                      TxHash = txHash, TxExplorerURL = GetExplorerURL chain txHash\<rparr>])))))"

text \<open>
  \<open>handleBothTokensRequest\<close>. After the loop, if any transfer succeeded, the daily
  counter is incremented by the constant 2 and a throttle marker is set for every
  token in \<open>transactions\<close>.
\<close>

definition handleBothTokensRequest ::
  "'f Runtime \<Rightarrow> 'f Handler \<Rightarrow> FaucetRequest \<Rightarrow> string \<Rightarrow> 'f Chain \<Rightarrow> 'f ChainProvider
     \<Rightarrow> 'f call list \<Rightarrow> 'f Response \<times> 'f call list" where
  "handleBothTokensRequest rt h req ip chain chainProvider hist =
     (let tokens = GetSupportedTokens chain;
          network = (if Network req = [] then defaultNetwork h else Network req)
      in case bothLoop rt h chain chainProvider req network tokens hist [] of
           (transactions, failedToken, hist1) \<Rightarrow>
         if length transactions > 0 then
           (let hist2 = hist1 @ [IncrementIPDailyLimit_call ip 2];
                hist3 = hist2 @ map (\<lambda>tx. SetTokenHourlyThrottle_call ip network (TxToken tx)) transactions;
                message = (if failedToken \<noteq> [] then SentButFailed (length transactions) failedToken
                           else BothTokensSent)
            in (FaucetJSON \<lparr>Success = True, RespTxHash = [], RespAmount = [], RespToken = [],
                   RespExplorerURL = [], RespMessage = message,
                   Transactions = transactions\<rparr>, hist3))
         else (ErrorJSON 500 (FailedToSendNamed failedToken), hist1))"

definition verifyChallenge ::
  "'f Runtime \<Rightarrow> 'f Handler \<Rightarrow> 'f Chain \<Rightarrow> 'f ChainProvider \<Rightarrow> FaucetRequest \<Rightarrow> string \<Rightarrow> string
     \<Rightarrow> 'f call list \<Rightarrow> 'f Response \<times> 'f call list" where
  "verifyChallenge rt h chain chainProvider req ip network hist =
     (let hist1 = hist @ [GetChallenge_call (ChallengeID req)]
      in case GetChallenge (redis h) hist (ChallengeID req) of
           (storedChallenge, err) \<Rightarrow>
         if err \<noteq> None then (ErrorJSON 400 InvalidOrExpiredChallenge, hist1)
         else if \<not> VerifyPoW h storedChallenge (Nonce req) (PoWDifficulty (config h))
           then (ErrorJSON 400 InvalidProofOfWork, hist1)
         else
           (let hist2 = hist1 @ [DeleteChallenge_call (ChallengeID req)]
            in if Token req = ''BOTH''
               then handleBothTokensRequest rt h req ip chain chainProvider hist2
               else transferSingle rt h chain chainProvider req ip network hist2))"

text \<open>
  The loop over the supported tokens in the \<open>BOTH\<close> branch of the throttle check (lines
  258-274): \<open>Some\<close> response when a check fails, \<open>None\<close> when every token passed.
\<close>

fun throttleLoop ::
  "'f Runtime \<Rightarrow> 'f Handler \<Rightarrow> string \<Rightarrow> string \<Rightarrow> string list \<Rightarrow> 'f call list
     \<Rightarrow> 'f Response option \<times> 'f call list" where
  "throttleLoop rt h ip network [] hist = (None, hist)"
| "throttleLoop rt h ip network (token # rest) hist =
     (let hist1 = hist @ [CheckTokenHourlyThrottle_call ip network token]
      in case CheckTokenHourlyThrottle (redis h) hist ip network token of
           (canRequestToken, nextTime, err) \<Rightarrow>
         if err \<noteq> None then (Some (ErrorJSON 500 FailedToCheckRateLimit), hist1)
         else if \<not> canRequestToken then
           (case nextTime of
              None \<Rightarrow> (Some NilPointerPanic, hist1)
            | Some t \<Rightarrow>
                (Some (ErrorJSON 429 (HourlyLimit token network (intMinutes (Until rt t) + 1))), hist1))
         else throttleLoop rt h ip network rest hist1)"

definition checkThrottle ::
  "'f Runtime \<Rightarrow> 'f Handler \<Rightarrow> 'f Chain \<Rightarrow> 'f ChainProvider \<Rightarrow> FaucetRequest \<Rightarrow> string
     \<Rightarrow> 'f call list \<Rightarrow> 'f Response \<times> 'f call list" where
  "checkThrottle rt h chain chainProvider req ip hist =
     (let network = (if Network req = [] then defaultNetwork h else Network req)
      in if Token req = ''BOTH'' then
           (case throttleLoop rt h ip network (GetSupportedTokens chain) hist of
              (Some response, hist1) \<Rightarrow> (response, hist1)
            | (None, hist1) \<Rightarrow> verifyChallenge rt h chain chainProvider req ip network hist1)
         else
           (let hist1 = hist @ [CheckTokenHourlyThrottle_call ip network (Token req)]
            in case CheckTokenHourlyThrottle (redis h) hist ip network (Token req) of
                 (canRequestToken, nextAvailable, err) \<Rightarrow>
               if err \<noteq> None then (ErrorJSON 500 FailedToCheckRateLimit, hist1)
               else if \<not> canRequestToken then
                 (case nextAvailable of
                    None \<Rightarrow> (NilPointerPanic, hist1)
                  | Some t \<Rightarrow>
                      (ErrorJSON 429 (HourlyLimit (Token req) network (intMinutes (Until rt t) + 1)), hist1))
               else verifyChallenge rt h chain chainProvider req ip network hist1))"

text \<open>
  The time string of the cooldown message: hours and minutes, or minutes alone when
  the truncated number of hours is not positive.
\<close>

definition cooldownTimeStr :: "Duration \<Rightarrow> TimeStr" where
  "cooldownTimeStr remaining =
     (let hours = intHours remaining;
          minutes = intMinutes remaining smod 60
      in if hours > 0 then HoursMinutes hours minutes else MinutesOnly minutes)"

definition checkDailyLimit ::
  "'f Runtime \<Rightarrow> 'f Handler \<Rightarrow> 'f Chain \<Rightarrow> 'f ChainProvider \<Rightarrow> FaucetRequest \<Rightarrow> string
     \<Rightarrow> 'f call list \<Rightarrow> 'f Response \<times> 'f call list" where
  "checkDailyLimit rt h chain chainProvider req ip hist =
     (let hist1 = hist @ [CheckIPDailyLimit_call ip]
      in case CheckIPDailyLimit (redis h) hist ip of
           (canRequest, currentCount, cooldownEnd, err) \<Rightarrow>
         if err \<noteq> None then (ErrorJSON 500 FailedToCheckRateLimit, hist1)
         else if \<not> canRequest \<and> cooldownEnd \<noteq> None then
           (ErrorJSON 429 (DailyCooldown (cooldownTimeStr (Until rt (the cooldownEnd)))), hist1)
         else
           (let requestCost = (if Token req = ''BOTH'' then 2 else 1)
            in if \<not> canRequest \<or> currentCount + requestCost > MaxRequestsPerDayIP (config h) then
                 (let hist2 = hist1 @ [GetIPDailyQuota_call ip]
                  in case GetIPDailyQuota (redis h) hist1 ip of
                       (used, _, _, _) \<Rightarrow>
                     (ErrorJSON 429 (DailyLimitExceeded used (MaxRequestsPerDayIP (config h))), hist2))
               else checkThrottle rt h chain chainProvider req ip hist1))"

text \<open>
  \<open>RequestTokens\<close>: \<open>body\<close> is the result of \<open>c.BodyParser\<close> (\<open>None\<close> when parsing fails),
  \<open>ip\<close> is \<open>c.IP()\<close>. The token is upper-cased before it is validated, and \<open>BOTH\<close> skips
  the token validation.
\<close>

definition RequestTokens ::
  "'f Runtime \<Rightarrow> 'f Handler \<Rightarrow> FaucetRequest option \<Rightarrow> string \<Rightarrow> 'f call list
     \<Rightarrow> 'f Response \<times> 'f call list" where
  "RequestTokens rt h body ip hist =
     (case body of
        None \<Rightarrow> (ErrorJSON 400 InvalidRequestBody, hist)
      | Some req0 \<Rightarrow>
          (case getChain h (Network req0) of
             Inl e \<Rightarrow> (ErrorJSON 400 e, hist)
           | Inr (chain, chainProvider) \<Rightarrow>
               (case ValidateAddress chain (Address req0) of
                  Some e \<Rightarrow> (ErrorJSON 400 (InvalidAddress e), hist)
                | None \<Rightarrow>
                    (let req = req0\<lparr>Token := ToUpper (Token req0)\<rparr>
                     in case (if Token req \<noteq> ''BOTH'' then ValidateToken chain (Token req) else None) of
                          Some e \<Rightarrow> (ErrorJSON 400 (InvalidToken e), hist)
                        | None \<Rightarrow> checkDailyLimit rt h chain chainProvider req ip hist))))"

subsection \<open>GetStatus\<close>

text \<open>
  \<open>GetStatus\<close> (lines 429-477): \<open>address\<close> is the path parameter, \<open>networkQuery\<close> the query
  parameter \<open>network\<close> (empty when absent, which \<open>c.Query\<close> replaces by the default
  network), \<open>ip\<close> is \<open>c.IP()\<close>. The response struct is built from \<open>Address\<close> and
  \<open>CanRequest\<close> alone; its two pointer fields keep their zero value \<open>nil\<close>.
\<close>

definition GetStatus ::
  "'f Handler \<Rightarrow> string \<Rightarrow> string \<Rightarrow> string \<Rightarrow> 'f call list \<Rightarrow> 'f Response \<times> 'f call list" where
  "GetStatus h address networkQuery ip hist =
     (let network = (if networkQuery = [] then defaultNetwork h else networkQuery)
      in case getChain h network of
           Inl e \<Rightarrow> (ErrorJSON 400 e, hist)
         | Inr (chain, _) \<Rightarrow>
             (case ValidateAddress chain address of
                Some e \<Rightarrow> (ErrorJSON 400 (InvalidAddress e), hist)
              | None \<Rightarrow>
                  (let hist1 = hist @ [GetIPDailyQuota_call ip]
                   in case GetIPDailyQuota (redis h) hist ip of
                        (used, remaining, cooldownEnd, err) \<Rightarrow>
                      if err \<noteq> None then (ErrorJSON 500 FailedToCheckStatus, hist1)
                      else
                        (let canRequest = (remaining > 0 \<and> cooldownEnd = None)
                         in (StatusJSON \<lparr>StatusAddress = address, CanRequest = canRequest,
                                NextRequestTime = None, RemainingHours = None\<rparr>, hist1)))))"

section \<open>Gates and call traces\<close>

text \<open>
  The gate a collaborator call belongs to, in the order the specification names them:
  1 the daily quota, 2 the hourly throttle, 3 the proof of work (challenge lookup and
  its deletion), 4 the global distribution limit and the balance guard, 5 the
  transfer, 6 the commit of the quota and of the throttle marker. Validation is gate
  0 and calls no collaborator.
\<close>

fun stage :: "'f call \<Rightarrow> nat" where
  "stage (CheckIPDailyLimit_call _) = 1"
| "stage (GetIPDailyQuota_call _) = 1"
| "stage (CheckTokenHourlyThrottle_call _ _ _) = 2"
| "stage (GetChallenge_call _) = 3"
| "stage (DeleteChallenge_call _) = 3"
| "stage (TrackGlobalDistribution_call _ _ _ _) = 4"
| "stage (GetBalance_call _ _ _) = 4"
| "stage (TransferTokens_call _ _ _ _) = 5"
| "stage (IncrementIPDailyLimit_call _ _) = 6"
| "stage (SetTokenHourlyThrottle_call _ _ _) = 6"

text \<open>
  The gates whose code returns a given response. \<open>Failed to check rate limit\<close> is
  returned by the daily check and by the throttle check alike; the nil dereference
  sits in the throttle check; a success follows the commit.
\<close>

fun bodyGates :: "'f ErrorBody \<Rightarrow> nat list" where
  "bodyGates InvalidRequestBody = [0]"
| "bodyGates (UnsupportedNetwork _) = [0]"
| "bodyGates (ProviderNotFound _) = [0]"
| "bodyGates (InvalidAddress _) = [0]"
| "bodyGates (InvalidToken _) = [0]"
| "bodyGates FailedToCheckRateLimit = [1, 2]"
| "bodyGates (DailyCooldown _) = [1]"
| "bodyGates (DailyLimitExceeded _ _) = [1]"
| "bodyGates (HourlyLimit _ _ _) = [2]"
| "bodyGates InvalidOrExpiredChallenge = [3]"
| "bodyGates InvalidProofOfWork = [3]"
| "bodyGates FailedToProcessRequest = [4]"
| "bodyGates FaucetLimit = [4]"
| "bodyGates FailedToCheckFaucetBalance = [4]"
| "bodyGates (LowBalance _ _) = [4]"
| "bodyGates FailedToSendTokens = [5]"
| "bodyGates (FailedToSendNamed _) = []"
| "bodyGates FailedToCheckStatus = []"

fun responseGates :: "'f Response \<Rightarrow> nat list" where
  "responseGates (ErrorJSON code b) = bodyGates b"
| "responseGates (FaucetJSON r) = [6]"
| "responseGates (StatusJSON r) = []"
| "responseGates NilPointerPanic = [2]"




section \<open>An in-memory store and a two-token chain\<close>

text \<open>
  A concrete handler on which the model is evaluated. Amounts are rationals with
  exact arithmetic; the amounts and the percentage used below (10, 1, 1000, 50) are
  computed without rounding by \<open>float64\<close> as well. One token is 10^18 wei.
\<close>

definition rt0 :: "rat Runtime" where
  "rt0 = \<lparr>fsub = (-), fmul = (*), fdiv = (/), flt = (<), float64 = of_int,
           ParseFloat = (\<lambda>s. if s = ''10'' then 10 else if s = ''1'' then 1 else 0),
           AmountToWei = (\<lambda>x. \<lfloor>x * 1000000000000000000\<rfloor>),
           WeiToAmount = (\<lambda>w. of_int w / 1000000000000000000),
           Now = 0\<rparr>"

text \<open>
  Modelled from the spec: the counter store (package \<open>cache\<close>, missing from the
  sources), as sections 3 and 4.3 describe it, answering from the calls made so far.
  The daily counter of a caller is the sum of its committed increments, and the
  cooldown marker is present once the counter has reached the cap of 5. A throttle
  marker is present once it has been set. A challenge is present if it was stored
  and has not been deleted. The global total of a token is the sum of the amounts
  admitted so far, and an amount is admitted if the total stays within both caps.
  Expiry is left out: no time passes. Two failures can be switched on: every write of
  a throttle marker fails, or every challenge lookup fails.
\<close>

fun dailyUsed :: "string \<Rightarrow> 'f call list \<Rightarrow> int" where
  "dailyUsed ip [] = 0"
| "dailyUsed ip (IncrementIPDailyLimit_call ip' n # cs) =
     (if ip' = ip then n + dailyUsed ip cs else dailyUsed ip cs)"
| "dailyUsed ip (c # cs) = dailyUsed ip cs"

fun distributed :: "string \<Rightarrow> rat call list \<Rightarrow> rat" where
  "distributed token [] = 0"
| "distributed token (TrackGlobalDistribution_call token' amount maxHourly maxDaily # cs) =
     (let total = distributed token cs
      in if token' = token \<and> total + amount \<le> maxHourly \<and> total + amount \<le> maxDaily
         then total + amount else total)"
| "distributed token (c # cs) = distributed token cs"

record StoreFaults =
  throttleWriteFails :: bool
  challengeStoreDown :: bool

definition noFaults :: StoreFaults where
  "noFaults = \<lparr>throttleWriteFails = False, challengeStoreDown = False\<rparr>"

definition memRedis :: "StoreFaults \<Rightarrow> string list \<Rightarrow> rat RedisClient" where
  "memRedis faults stored =
     \<lparr>CheckIPDailyLimit = (\<lambda>h ip.
          if 5 \<le> dailyUsed ip h then (False, dailyUsed ip h, Some 86400000000000, None)
          else (True, dailyUsed ip h, None, None)),
      GetIPDailyQuota = (\<lambda>h ip.
          (dailyUsed ip h, 5 - dailyUsed ip h,
           if 5 \<le> dailyUsed ip h then Some 86400000000000 else None, None)),
      CheckTokenHourlyThrottle = (\<lambda>h ip network token.
          if \<not> throttleWriteFails faults \<and> SetTokenHourlyThrottle_call ip network token \<in> set h
          then (False, Some 3600000000000, None) else (True, None, None)),
      GetChallenge = (\<lambda>h id.
          if challengeStoreDown faults then ([], Some ''dial tcp: connection refused'')
          else if id \<in> set stored \<and> DeleteChallenge_call id \<notin> set h then (''seed'', None)
          else ([], Some ''redis: nil'')),
      DeleteChallenge = (\<lambda>h id. None),
      TrackGlobalDistribution = (\<lambda>h token amount maxHourly maxDaily.
          (distributed token (rev h) + amount \<le> maxHourly
             \<and> distributed token (rev h) + amount \<le> maxDaily, None)),
      IncrementIPDailyLimit = (\<lambda>h ip n. None),
      SetTokenHourlyThrottle = (\<lambda>h ip network token.
          if throttleWriteFails faults then Some ''dial tcp: connection refused'' else None)\<rparr>"

text \<open>
  A chain with the two tokens of the Starknet faucet, a faucet balance of 1000 tokens
  and transfers that succeed; its provider drips 10 STRK or 1 ETH, keeps half of the
  balance as reserve and caps ETH at \<open>ethPerHour\<close> per hour. The handler stores the
  challenges \<open>c1\<close> and \<open>c2\<close>, whose solution is the nonce 42.
\<close>

definition starknet0 :: "rat Chain" where
  "starknet0 =
     \<lparr>ValidateAddress = (\<lambda>a. if take 2 a = ''0x'' then None else Some ''address must start with 0x''),
      ValidateToken = (\<lambda>t. if t = ''STRK'' \<or> t = ''ETH'' then None else Some ''invalid token''),
      GetSupportedTokens = [''STRK'', ''ETH''],
      GetBalance = (\<lambda>h a t. (1000000000000000000000, None)),
      TransferTokens = (\<lambda>h recipient t amountWei. (''0xtx'', None)),
      GetExplorerURL = (\<lambda>tx. ''/tx/'' @ tx)\<rparr>"

definition provider0 :: "rat \<Rightarrow> rat ChainProvider" where
  "provider0 ethPerHour =
     \<lparr>GetDripAmount = (\<lambda>t. if t = ''STRK'' then ''10'' else if t = ''ETH'' then ''1'' else ''0''),
      GetMaxTokensPerHour = (\<lambda>t. if t = ''ETH'' then ethPerHour else 100),
      GetMaxTokensPerDay = (\<lambda>t. 1000),
      GetMinBalanceProtectPct = 50,
      GetFaucetAddress = ''0xfa''\<rparr>"

definition handler0 :: "StoreFaults \<Rightarrow> rat \<Rightarrow> rat Handler" where
  "handler0 faults ethPerHour =
     \<lparr>config = \<lparr>MaxRequestsPerDayIP = 5, PoWDifficulty = 4\<rparr>,
      redis = memRedis faults [''c1'', ''c2''],
      chains = [''starknet'' \<mapsto> starknet0],
      providers = [''starknet'' \<mapsto> provider0 ethPerHour],
      VerifyPoW = (\<lambda>challenge nonce difficulty. challenge = ''seed'' \<and> nonce = 42),
      defaultNetwork = ''starknet''\<rparr>"

definition request0 :: "string \<Rightarrow> string \<Rightarrow> FaucetRequest" where
  "request0 token challenge =
     \<lparr>Address = ''0xab'', Token = token, Network = [], ChallengeID = challenge, Nonce = 42\<rparr>"

section \<open>Properties of a run\<close>

text \<open>
  The network key a request is served under: its own, or the default network when it
  names none (lines 250-253 and 625-628, and \<open>getChain\<close>).

  The commit of a single-token request follows its transfer: the calls
  \<open>tr\<close> extend \<open>hist\<close> by \<open>new\<close>, and either the response is a success, its last
  three calls are the transfer (which returned the response's hash and no error),
  the daily increment by 1 and the throttle marker, and nothing before them is a
  transfer or a commit; or the response is no success and no call is a commit.
\<close>

definition effectiveNetwork :: "'f Handler \<Rightarrow> FaucetRequest \<Rightarrow> string" where
  "effectiveNetwork h req = (if Network req = [] then defaultNetwork h else Network req)"

definition commitsFollowTransfer ::
  "'f Chain \<Rightarrow> FaucetRequest \<Rightarrow> string \<Rightarrow> string \<Rightarrow> 'f call list \<Rightarrow> 'f Response \<times> 'f call list \<Rightarrow> bool" where
  "commitsFollowTransfer chain req ip network hist result =
     (case result of (resp, tr) \<Rightarrow>
        \<exists>new. tr = hist @ new \<and>
          (case resp of
             FaucetJSON r \<Rightarrow>
               (\<exists>pre amountWei.
                   new = pre @ [TransferTokens_call network (Address req) (Token req) amountWei,
                                IncrementIPDailyLimit_call ip 1,
                                SetTokenHourlyThrottle_call ip network (Token req)]
                   \<and> TransferTokens chain (hist @ pre) (Address req) (Token req) amountWei
                       = (RespTxHash r, None)
                   \<and> list_all (\<lambda>c. stage c < 5) pre)
           | _ \<Rightarrow> list_all (\<lambda>c. stage c < 6) new))"










text \<open>
  The throttle markers a successful response stands for have been written: for every
  transaction of the response (and, with \<open>single\<close>, for the token of a single-token
  request) the call that sets the marker for the caller, the network and the token is
  among the calls.
\<close>

definition markersWritten ::
  "string \<Rightarrow> string \<Rightarrow> string option \<Rightarrow> 'f Response \<times> 'f call list \<Rightarrow> bool" where
  "markersWritten ip network single result =
     (case result of (resp, tr) \<Rightarrow>
        (case resp of
           FaucetJSON r \<Rightarrow>
             list_all (\<lambda>tx. SetTokenHourlyThrottle_call ip network (TxToken tx) \<in> set tr) (Transactions r)
             \<and> (case single of None \<Rightarrow> True
                 | Some token \<Rightarrow> SetTokenHourlyThrottle_call ip network token \<in> set tr)
         | _ \<Rightarrow> True))"


section \<open>Proofs\<close>

subsection \<open>Evaluation\<close>

lemmas model_defs = RequestTokens_def getChain_def checkDailyLimit_def checkThrottle_def
  verifyChallenge_def handleBothTokensRequest_def transferSingle_def GetStatus_def
  balanceProtectionTriggered_def cooldownTimeStr_def Until_def intMinutes_def intHours_def

lemmas env_defs = handler0_def request0_def starknet0_def provider0_def noFaults_def
  memRedis_def rt0_def


lemma ToUpper_strk: "ToUpper ''strk'' = ''STRK''"
  by code_simp

lemma ToUpper_STRK: "ToUpper ''STRK'' = ''STRK''"
  by code_simp

subsection \<open>The EIP-55 checksum\<close>

lemma toLowerByte_idem: "toLowerByte (toLowerByte c) = toLowerByte c"
  unfolding toLowerByte_def Let_def by auto

lemma toLower_toUpper_fixed:
  assumes "toLowerByte c = c"
  shows "toLowerByte (toUpperByte c) = c"
proof (cases "97 \<le> (of_char c :: nat) \<and> (of_char c :: nat) \<le> 122")
  case True
  have "char_of ((of_char c :: nat) - 32 + 32) = c"
    using True by simp
  with True show ?thesis
    unfolding toLowerByte_def toUpperByte_def Let_def by auto
next
  case False
  with assms show ?thesis
    unfolding toUpperByte_def Let_def by auto
qed

lemma checksumLoop_shape:
  assumes "list_all (\<lambda>c. toLowerByte c = c) addr" and "i + length addr \<le> length hashHex"
  shows "\<exists>z. checksumLoop hashHex i addr result = Some (result @ z) \<and> ToLower z = addr"
  using assms
proof (induction addr arbitrary: i result)
  case Nil
  then show ?case by (simp add: ToLower_def)
next
  case (Cons c cs)
  have low: "toLowerByte c = c" and rest: "list_all (\<lambda>c. toLowerByte c = c) cs"
    using Cons.prems(1) by simp_all
  have bound: "Suc i + length cs \<le> length hashHex" and here: "i < length hashHex"
    using Cons.prems(2) by simp_all
  show ?case
  proof (cases "\<not> isDecimalDigit c \<and> (56::nat) \<le> of_char (hashHex ! i)")
    case True
    obtain z where z: "checksumLoop hashHex (Suc i) cs (result @ ToUpper [c]) = Some ((result @ ToUpper [c]) @ z)"
      "ToLower z = cs"
      using Cons.IH [OF rest bound] by blast
    have "ToLower (ToUpper [c] @ z) = c # cs"
      using z(2) toLower_toUpper_fixed [OF low] by (simp add: ToLower_def ToUpper_def)
    with z(1) True here show ?thesis by auto
  next
    case False
    obtain z where z: "checksumLoop hashHex (Suc i) cs (result @ [c]) = Some ((result @ [c]) @ z)"
      "ToLower z = cs"
      using Cons.IH [OF rest bound] by blast
    have "ToLower ([c] @ z) = c # cs"
      using z(2) low by (simp add: ToLower_def)
    with z(1) False here show ?thesis by auto
  qed
qed

lemma ToLower_fixed: "list_all (\<lambda>c. toLowerByte c = c) (ToLower s)"
  by (simp add: ToLower_def list_all_iff toLowerByte_idem)

lemma length_EncodeToString: "length (EncodeToString bs) = 2 * length bs"
  by (induction bs) (simp_all add: EncodeToString_def)

lemma toEIP55Checksum_shape:
  assumes "2 \<le> length a" and "length a - 2 \<le> 2 * length (Keccak256 (ToLower (drop 2 a)))"
  shows "\<exists>z. toEIP55Checksum Keccak256 a = Some (''0x'' @ z) \<and> ToLower z = ToLower (drop 2 a)"
proof -
  have "0 + length (ToLower (drop 2 a)) \<le> length (EncodeToString (Keccak256 (ToLower (drop 2 a))))"
    using assms(2) by (simp add: length_EncodeToString ToLower_def)
  from checksumLoop_shape [OF ToLower_fixed this, of "''0x''"] assms(1)
  show ?thesis by (simp add: toEIP55Checksum_def Let_def)
qed

text \<open>
  C10. For every address of the form \<open>0x\<close> followed by 40 hex characters,
  \<open>toEIP55Checksum\<close> returns a string \<open>r\<close> (it does not panic), checksumming \<open>r\<close> again
  gives \<open>r\<close>, and \<open>isValidEIP55Checksum r\<close> is true. The digest function is any function
  that returns 32 bytes, as Keccak-256 does.
\<close>

theorem toEIP55Checksum_idempotent:
  assumes "\<forall>s. length (Keccak256 s) = 32" and "isEthereumAddressForm a"
  shows "\<exists>r. toEIP55Checksum Keccak256 a = Some r \<and> toEIP55Checksum Keccak256 r = Some r
             \<and> isValidEIP55Checksum Keccak256 r = Some True"
proof -
  have la: "2 \<le> length a" "length a - 2 \<le> 2 * length (Keccak256 (ToLower (drop 2 a)))"
    using assms by (auto simp: isEthereumAddressForm_def)
  obtain z where z: "toEIP55Checksum Keccak256 a = Some (''0x'' @ z)" "ToLower z = ToLower (drop 2 a)"
    using toEIP55Checksum_shape [of a Keccak256] la by blast
  let ?r = "''0x'' @ z"
  have same: "toEIP55Checksum Keccak256 ?r = toEIP55Checksum Keccak256 a"
    using z(2) la(1) by (simp add: toEIP55Checksum_def Let_def)
  with z(1) have "toEIP55Checksum Keccak256 ?r = Some ?r" by simp
  with z(1) show ?thesis by (simp add: isValidEIP55Checksum_def)
qed

theorem toEIP55Checksum_idempotent_witness:
  "isEthereumAddressForm ''0x52908400098527886e0f7030069857d2e4169ee7''
   \<and> (\<exists>r. toEIP55Checksum digest0 ''0x52908400098527886e0f7030069857d2e4169ee7'' = Some r
          \<and> toEIP55Checksum digest0 r = Some r \<and> isValidEIP55Checksum digest0 r = Some True)"
proof -
  have k: "\<forall>s. length (digest0 s) = 32" by (simp add: digest0_def)
  have f: "isEthereumAddressForm ''0x52908400098527886e0f7030069857d2e4169ee7''"
    by (simp add: isEthereumAddressForm_def isHexChar_def)
  from toEIP55Checksum_idempotent [OF k f] f show ?thesis by blast
qed

subsection \<open>GetStatus\<close>

lemma GetStatus_canRequest:
  assumes "GetStatus h address networkQuery ip hist = (StatusJSON r, tr)"
  shows "(CanRequest r \<longleftrightarrow>
            0 < fst (snd (GetIPDailyQuota (redis h) hist ip))
            \<and> fst (snd (snd (GetIPDailyQuota (redis h) hist ip))) = None)
         \<and> StatusAddress r = address \<and> NextRequestTime r = None \<and> RemainingHours r = None
         \<and> tr = hist @ [GetIPDailyQuota_call ip]"
  using assms
  by (auto simp: GetStatus_def Let_def split: sum.splits option.splits prod.splits if_splits)

text \<open>
  C9. Whenever \<open>GetStatus\<close> answers with a status, the one collaborator call it made
  is \<open>GetIPDailyQuota\<close> for the requester's IP; \<open>CanRequest\<close> is true iff that quota has
  a positive remainder and no cooldown end; the next-request time and the remaining
  hours are unset; and a status request for any other address from the same IP
  carries the same \<open>CanRequest\<close>.
\<close>

theorem status_from_requester_quota:
  assumes "GetStatus h address networkQuery ip hist = (StatusJSON r, tr)"
  shows "tr = hist @ [GetIPDailyQuota_call ip]
         \<and> (CanRequest r \<longleftrightarrow>
              0 < fst (snd (GetIPDailyQuota (redis h) hist ip))
              \<and> fst (snd (snd (GetIPDailyQuota (redis h) hist ip))) = None)
         \<and> NextRequestTime r = None \<and> RemainingHours r = None
         \<and> (\<forall>address' r' tr'. GetStatus h address' networkQuery ip hist = (StatusJSON r', tr')
                \<longrightarrow> CanRequest r' = CanRequest r)"
proof -
  note a = GetStatus_canRequest [OF assms]
  have "CanRequest r' = CanRequest r"
    if "GetStatus h address' networkQuery ip hist = (StatusJSON r', tr')" for address' r' tr'
    using GetStatus_canRequest [OF that] a by blast
  with a show ?thesis by blast
qed

theorem status_from_requester_quota_witness:
  "GetStatus (handler0 noFaults 100) ''0xab'' [] ''1.2.3.4'' []
     = (StatusJSON \<lparr>StatusAddress = ''0xab'', CanRequest = True, NextRequestTime = None,
                     RemainingHours = None\<rparr>, [GetIPDailyQuota_call ''1.2.3.4''])
   \<and> (CanRequest \<lparr>StatusAddress = ''0xab'', CanRequest = True, NextRequestTime = None,
                     RemainingHours = (None :: rat option)\<rparr> \<longleftrightarrow>
        0 < fst (snd (GetIPDailyQuota (redis (handler0 noFaults 100)) [] ''1.2.3.4''))
        \<and> fst (snd (snd (GetIPDailyQuota (redis (handler0 noFaults 100)) [] ''1.2.3.4''))) = None)"
proof -
  have e: "GetStatus (handler0 noFaults 100) ''0xab'' [] ''1.2.3.4'' []
     = (StatusJSON \<lparr>StatusAddress = ''0xab'', CanRequest = True, NextRequestTime = None,
                     RemainingHours = None\<rparr>, [GetIPDailyQuota_call ''1.2.3.4''])"
    by (simp add: model_defs env_defs Let_def)
  from status_from_requester_quota [OF e] e show ?thesis by blast
qed

subsection \<open>Commit after transfer\<close>

lemma commitsFollowTransfer_step:
  assumes "commitsFollowTransfer chain req ip network (hist @ [c]) result" and "stage c < 5"
  shows "commitsFollowTransfer chain req ip network hist result"
proof -
  obtain resp tr where res: "result = (resp, tr)" by (cases result)
  from assms(1) res obtain new where new: "tr = (hist @ [c]) @ new"
    and p: "case resp of
             FaucetJSON r \<Rightarrow>
               (\<exists>pre amountWei.
                   new = pre @ [TransferTokens_call network (Address req) (Token req) amountWei,
                                IncrementIPDailyLimit_call ip 1,
                                SetTokenHourlyThrottle_call ip network (Token req)]
                   \<and> TransferTokens chain ((hist @ [c]) @ pre) (Address req) (Token req) amountWei
                       = (RespTxHash r, None)
                   \<and> list_all (\<lambda>c. stage c < 5) pre)
           | _ \<Rightarrow> list_all (\<lambda>c. stage c < 6) new"
    unfolding commitsFollowTransfer_def by auto
  show ?thesis
  proof (cases resp)
    case (FaucetJSON r)
    with p obtain pre amountWei where
      q: "new = pre @ [TransferTokens_call network (Address req) (Token req) amountWei,
                                IncrementIPDailyLimit_call ip 1,
                                SetTokenHourlyThrottle_call ip network (Token req)]"
         "TransferTokens chain ((hist @ [c]) @ pre) (Address req) (Token req) amountWei
                       = (RespTxHash r, None)"
         "list_all (\<lambda>c. stage c < 5) pre"
      by auto
    have "c # new = (c # pre) @ [TransferTokens_call network (Address req) (Token req) amountWei,
                                IncrementIPDailyLimit_call ip 1,
                                SetTokenHourlyThrottle_call ip network (Token req)]"
      using q(1) by simp
    moreover have "TransferTokens chain (hist @ (c # pre)) (Address req) (Token req) amountWei
                       = (RespTxHash r, None)"
      using q(2) by simp
    moreover have "list_all (\<lambda>c. stage c < 5) (c # pre)"
      using q(3) assms(2) by simp
    moreover have "tr = hist @ (c # new)" using new by simp
    ultimately show ?thesis
      unfolding commitsFollowTransfer_def res FaucetJSON by (simp del: append_Cons)
  next
    case (ErrorJSON code b)
    with p new assms(2) show ?thesis
      unfolding commitsFollowTransfer_def res by (auto intro!: exI [of _ "c # new"])
  next
    case (StatusJSON s)
    with p new assms(2) show ?thesis
      unfolding commitsFollowTransfer_def res by (auto intro!: exI [of _ "c # new"])
  next
    case NilPointerPanic
    with p new assms(2) show ?thesis
      unfolding commitsFollowTransfer_def res by (auto intro!: exI [of _ "c # new"])
  qed
qed

lemma commitsFollowTransfer_error:
  assumes "\<And>r. resp \<noteq> FaucetJSON r" and "list_all (\<lambda>c. stage c < 6) new"
  shows "commitsFollowTransfer chain req ip network hist (resp, hist @ new)"
  using assms unfolding commitsFollowTransfer_def by (cases resp) auto

lemma transferSingle_commits:
  "commitsFollowTransfer chain req ip network hist
     (transferSingle rt h chain chainProvider req ip network hist)"
proof -
  let ?amt = "ParseFloat rt (GetDripAmount chainProvider (Token req))"
  let ?tg = "TrackGlobalDistribution_call (Token req) ?amt
               (GetMaxTokensPerHour chainProvider (Token req)) (GetMaxTokensPerDay chainProvider (Token req))"
  let ?gb = "GetBalance_call network (GetFaucetAddress chainProvider) (Token req)"
  show ?thesis
    unfolding transferSingle_def Let_def commitsFollowTransfer_def
    by (auto split: prod.splits intro!: exI [of _ "[?tg, ?gb]"])
qed

lemma verifyChallenge_commits:
  assumes "Token req \<noteq> ''BOTH''"
  shows "commitsFollowTransfer chain req ip network hist
           (verifyChallenge rt h chain chainProvider req ip network hist)"
proof -
  let ?gc = "GetChallenge_call (ChallengeID req) :: 'a call"
  let ?dc = "DeleteChallenge_call (ChallengeID req) :: 'a call"
  have "commitsFollowTransfer chain req ip network ((hist @ [?gc]) @ [?dc])
           (transferSingle rt h chain chainProvider req ip network ((hist @ [?gc]) @ [?dc]))"
    by (rule transferSingle_commits)
  then have "commitsFollowTransfer chain req ip network (hist @ [?gc])
           (transferSingle rt h chain chainProvider req ip network ((hist @ [?gc]) @ [?dc]))"
    by (rule commitsFollowTransfer_step) simp
  then have pass: "commitsFollowTransfer chain req ip network hist
           (transferSingle rt h chain chainProvider req ip network ((hist @ [?gc]) @ [?dc]))"
    by (rule commitsFollowTransfer_step) simp
  have fail: "commitsFollowTransfer chain req ip network hist (ErrorJSON code b, hist @ [?gc])" for code b
    by (rule commitsFollowTransfer_error) simp_all
  show ?thesis
    unfolding verifyChallenge_def Let_def
    using assms pass fail by (simp split: prod.splits)
qed

lemma checkThrottle_commits:
  assumes "Token req \<noteq> ''BOTH''"
  shows "commitsFollowTransfer chain req ip (effectiveNetwork h req) hist
           (checkThrottle rt h chain chainProvider req ip hist)"
proof -
  define network where "network = (if Network req = [] then defaultNetwork h else Network req)"
  let ?c = "CheckTokenHourlyThrottle_call ip network (Token req) :: 'a call"
  have "commitsFollowTransfer chain req ip network (hist @ [?c])
           (verifyChallenge rt h chain chainProvider req ip network (hist @ [?c]))"
    by (rule verifyChallenge_commits [OF assms])
  then have pass: "commitsFollowTransfer chain req ip network hist
           (verifyChallenge rt h chain chainProvider req ip network (hist @ [?c]))"
    by (rule commitsFollowTransfer_step) simp
  have fail: "commitsFollowTransfer chain req ip network hist (resp, hist @ [?c])"
    if "\<And>r. resp \<noteq> FaucetJSON r" for resp
    using that by (rule commitsFollowTransfer_error) simp
  have "commitsFollowTransfer chain req ip network hist
           (checkThrottle rt h chain chainProvider req ip hist)"
    unfolding checkThrottle_def Let_def network_def [symmetric]
    using assms pass fail by (simp split: prod.splits option.splits)
  then show ?thesis by (simp only: network_def effectiveNetwork_def)
qed

lemma checkDailyLimit_commits:
  assumes "Token req \<noteq> ''BOTH''"
  shows "commitsFollowTransfer chain req ip (effectiveNetwork h req) hist
           (checkDailyLimit rt h chain chainProvider req ip hist)"
proof -
  define network where "network = (if Network req = [] then defaultNetwork h else Network req)"
  let ?c = "CheckIPDailyLimit_call ip :: 'a call"
  have "commitsFollowTransfer chain req ip network (hist @ [?c])
           (checkThrottle rt h chain chainProvider req ip (hist @ [?c]))"
    unfolding network_def effectiveNetwork_def [symmetric] by (rule checkThrottle_commits [OF assms])
  then have pass: "commitsFollowTransfer chain req ip network hist
           (checkThrottle rt h chain chainProvider req ip (hist @ [?c]))"
    by (rule commitsFollowTransfer_step) simp
  have one: "commitsFollowTransfer chain req ip network hist (resp, hist @ [?c])"
    if "\<And>r. resp \<noteq> FaucetJSON r" for resp
    using that by (rule commitsFollowTransfer_error) simp
  have two: "commitsFollowTransfer chain req ip network hist
           (resp, hist @ [?c, GetIPDailyQuota_call ip])" if "\<And>r. resp \<noteq> FaucetJSON r" for resp
    using that by (rule commitsFollowTransfer_error) simp
  have "commitsFollowTransfer chain req ip network hist
           (checkDailyLimit rt h chain chainProvider req ip hist)"
    unfolding checkDailyLimit_def Let_def
    using assms pass one two by (simp split: prod.splits)
  then show ?thesis by (simp only: network_def effectiveNetwork_def)
qed

lemma RequestTokens_validated:
  assumes "getChain h (Network req0) = Inr (chain, chainProvider)"
    and "ValidateAddress chain (Address req0) = None"
    and "ToUpper (Token req0) \<noteq> ''BOTH'' \<longrightarrow> ValidateToken chain (ToUpper (Token req0)) = None"
  shows "RequestTokens rt h (Some req0) ip hist =
           checkDailyLimit rt h chain chainProvider (req0\<lparr>Token := ToUpper (Token req0)\<rparr>) ip hist"
  using assms by (simp add: RequestTokens_def Let_def)

lemma RequestTokens_rejected:
  assumes "\<not> (\<exists>chain chainProvider. getChain h (Network req0) = Inr (chain, chainProvider)
              \<and> ValidateAddress chain (Address req0) = None
              \<and> (ToUpper (Token req0) \<noteq> ''BOTH'' \<longrightarrow> ValidateToken chain (ToUpper (Token req0)) = None))"
  shows "\<exists>b. RequestTokens rt h (Some req0) ip hist = (ErrorJSON 400 b, hist) \<and> bodyGates b = [0]"
  using assms
  by (auto simp: RequestTokens_def Let_def getChain_def split: sum.splits option.splits if_splits)

text \<open>
  C4. For every single-token request (its upper-cased token is not \<open>BOTH\<close>): if the
  response is a success, the last three calls are the transfer, which returned no
  error and the hash of the response, then \<open>IncrementIPDailyLimit\<close> by 1, then
  \<open>SetTokenHourlyThrottle\<close> for the caller, the network and the token, and no call
  before them is a transfer or a commit. If the response is anything else (a gate
  rejected the request, a collaborator failed, or the transfer failed), no call of
  the request is a commit.
\<close>

theorem commit_only_after_transfer:
  assumes "ToUpper (Token req0) \<noteq> ''BOTH''"
    and "RequestTokens rt h (Some req0) ip hist = (resp, tr)"
  shows "\<exists>new. tr = hist @ new \<and>
    (case resp of
       FaucetJSON r \<Rightarrow>
         (\<exists>chain chainProvider pre amountWei.
             getChain h (Network req0) = Inr (chain, chainProvider)
             \<and> new = pre @ [TransferTokens_call (effectiveNetwork h req0)
                                (Address req0) (ToUpper (Token req0)) amountWei,
                             IncrementIPDailyLimit_call ip 1,
                             SetTokenHourlyThrottle_call ip (effectiveNetwork h req0)
                                (ToUpper (Token req0))]
             \<and> TransferTokens chain (hist @ pre) (Address req0) (ToUpper (Token req0)) amountWei
                  = (RespTxHash r, None)
             \<and> list_all (\<lambda>c. stage c < 5) pre)
     | _ \<Rightarrow> list_all (\<lambda>c. stage c < 6) new)"
proof (cases "\<exists>chain chainProvider. getChain h (Network req0) = Inr (chain, chainProvider)
              \<and> ValidateAddress chain (Address req0) = None
              \<and> (ToUpper (Token req0) \<noteq> ''BOTH'' \<longrightarrow> ValidateToken chain (ToUpper (Token req0)) = None)")
  case True
  then obtain chain chainProvider where v: "getChain h (Network req0) = Inr (chain, chainProvider)"
    "ValidateAddress chain (Address req0) = None"
    "ToUpper (Token req0) \<noteq> ''BOTH'' \<longrightarrow> ValidateToken chain (ToUpper (Token req0)) = None"
    by blast
  let ?req = "req0\<lparr>Token := ToUpper (Token req0)\<rparr>"
  have n: "effectiveNetwork h ?req = effectiveNetwork h req0"
    by (simp add: effectiveNetwork_def)
  have "commitsFollowTransfer chain ?req ip (effectiveNetwork h ?req) hist
           (checkDailyLimit rt h chain chainProvider ?req ip hist)"
    by (rule checkDailyLimit_commits) (simp add: assms(1))
  then have "commitsFollowTransfer chain ?req ip (effectiveNetwork h req0) hist (resp, tr)"
    using RequestTokens_validated [OF v, of rt ip hist] assms(2) by (simp only: n)
  then have pred: "commitsFollowTransfer chain ?req ip (effectiveNetwork h req0) hist (resp, tr)" .
  show ?thesis
  proof (cases resp)
    case (FaucetJSON r)
    from pred obtain new pre amountWei where new: "tr = hist @ new" and q:
      "new = pre @ [TransferTokens_call (effectiveNetwork h req0)
                                  (Address req0) (ToUpper (Token req0)) amountWei,
                                IncrementIPDailyLimit_call ip 1,
                                SetTokenHourlyThrottle_call ip (effectiveNetwork h req0)
                                  (ToUpper (Token req0))]"
      "TransferTokens chain (hist @ pre) (Address req0) (ToUpper (Token req0)) amountWei
                       = (RespTxHash r, None)"
      "list_all (\<lambda>c. stage c < 5) pre"
      unfolding commitsFollowTransfer_def FaucetJSON by auto
    show ?thesis
      unfolding FaucetJSON Response.case
      by (intro exI [of _ new] conjI new exI [of _ chain] exI [of _ chainProvider]
            exI [of _ pre] exI [of _ amountWei] v(1) q)
  next
    case (ErrorJSON code b)
    with pred show ?thesis unfolding commitsFollowTransfer_def by simp
  next
    case (StatusJSON s)
    with pred show ?thesis unfolding commitsFollowTransfer_def by simp
  next
    case NilPointerPanic
    with pred show ?thesis unfolding commitsFollowTransfer_def by simp
  qed
next
  case False
  from RequestTokens_rejected [OF False, of rt ip hist] assms(2)
  obtain b where "resp = ErrorJSON 400 b" "tr = hist" by auto
  then show ?thesis by simp
qed

theorem commit_only_after_transfer_witness:
  "ToUpper (Token (request0 ''strk'' ''c1'')) \<noteq> ''BOTH''
   \<and> (\<exists>new r. RequestTokens rt0 (handler0 noFaults 100) (Some (request0 ''strk'' ''c1'')) ''1.2.3.4'' []
               = (FaucetJSON r, [] @ new)
        \<and> (\<exists>pre amountWei.
             new = pre @ [TransferTokens_call ''starknet'' ''0xab'' ''STRK'' amountWei,
                           IncrementIPDailyLimit_call ''1.2.3.4'' 1,
                           SetTokenHourlyThrottle_call ''1.2.3.4'' ''starknet'' ''STRK'']
             \<and> list_all (\<lambda>c. stage c < 5) pre))"
proof -
  let ?r = "\<lparr>Success = True, RespTxHash = ''0xtx'', RespAmount = ''10'',
      RespToken = ''STRK'', RespExplorerURL = ''/tx/0xtx'',
      RespMessage = TokensSent, Transactions = []\<rparr>"
  let ?tr = "[CheckIPDailyLimit_call ''1.2.3.4'',
   CheckTokenHourlyThrottle_call ''1.2.3.4'' ''starknet'' ''STRK'',
   GetChallenge_call ''c1'', DeleteChallenge_call ''c1'',
   TrackGlobalDistribution_call ''STRK'' 10 100 1000,
   GetBalance_call ''starknet'' ''0xfa'' ''STRK'',
   TransferTokens_call ''starknet'' ''0xab'' ''STRK'' 10000000000000000000,
   IncrementIPDailyLimit_call ''1.2.3.4'' 1,
   SetTokenHourlyThrottle_call ''1.2.3.4'' ''starknet'' ''STRK''] :: rat call list"
  have t: "ToUpper (Token (request0 ''strk'' ''c1'')) \<noteq> ''BOTH''"
    by (simp add: request0_def ToUpper_strk)
  have e: "RequestTokens rt0 (handler0 noFaults 100) (Some (request0 ''strk'' ''c1'')) ''1.2.3.4'' []
             = (FaucetJSON ?r, ?tr)"
    by (simp add: model_defs env_defs Let_def ToUpper_strk)
  from commit_only_after_transfer [OF t e] t e show ?thesis
    by (simp add: request0_def handler0_def effectiveNetwork_def ToUpper_strk)
qed

subsection \<open>Gate order of a single-token request\<close>










subsection \<open>Gate order of a request for both tokens\<close>














subsection \<open>Every run extends the calls made before it\<close>










subsection \<open>The balance guard\<close>



subsection \<open>The daily quota gate\<close>






subsection \<open>Gates of the calls after the proof of work\<close>




subsection \<open>Use of the challenge\<close>












subsection \<open>The hourly throttle gate\<close>










subsection \<open>The markers written after a disbursement\<close>


lemma markersWritten_panic: "markersWritten ip network single (NilPointerPanic, tr)"
  by (simp add: markersWritten_def)










subsection \<open>The hourly throttle\<close>




subsection \<open>Charging of a partial success\<close>


subsection \<open>Errors of the challenge store\<close>

text \<open>
  C6 at a failing input. The store cannot be reached when the challenge is looked up
  (\<open>GetChallenge\<close> returns a connection error). The daily and hourly checks pass, and
  the response is status 400 with \<open>Invalid or expired challenge\<close>, the very response
  given for a challenge that does not exist, where the errors of the other checks
  (lines 208-214, 262-267, 277-282) give status 500.
\<close>

theorem challenge_store_error_failing_input:
  "GetChallenge (redis (handler0 (noFaults\<lparr>challengeStoreDown := True\<rparr>) 100))
      [CheckIPDailyLimit_call ''1.2.3.4'',
       CheckTokenHourlyThrottle_call ''1.2.3.4'' ''starknet'' ''STRK''] ''c1''
     = ([], Some ''dial tcp: connection refused'')
   \<and> RequestTokens rt0 (handler0 (noFaults\<lparr>challengeStoreDown := True\<rparr>) 100)
        (Some (request0 ''strk'' ''c1'')) ''1.2.3.4'' []
     = (ErrorJSON 400 InvalidOrExpiredChallenge,
        [CheckIPDailyLimit_call ''1.2.3.4'',
         CheckTokenHourlyThrottle_call ''1.2.3.4'' ''starknet'' ''STRK'',
         GetChallenge_call ''c1''])
   \<and> RequestTokens rt0 (handler0 noFaults 100)
        (Some (request0 ''strk'' ''no-such-challenge'')) ''1.2.3.4'' []
     = (ErrorJSON 400 InvalidOrExpiredChallenge,
        [CheckIPDailyLimit_call ''1.2.3.4'',
         CheckTokenHourlyThrottle_call ''1.2.3.4'' ''starknet'' ''STRK'',
         GetChallenge_call ''no-such-challenge''])
   \<and> 3 \<in> set (responseGates (ErrorJSON 400 InvalidOrExpiredChallenge :: rat Response))"
  by (simp add: model_defs env_defs Let_def ToUpper_strk)

end
